theory Spec2Isabelle
  imports Complex_Main "HOL-Library.Sublist"
begin

section \<open>The values that \<open>json.load\<close> produces\<close>

text \<open>
  The script \<^verbatim>\<open>scripts/merge-docs-index.py\<close> works on whatever \<^verbatim>\<open>json.load\<close>
  returns: \<^verbatim>\<open>None\<close>, \<^verbatim>\<open>bool\<close>, \<^verbatim>\<open>int\<close>, \<^verbatim>\<open>float\<close>, \<^verbatim>\<open>str\<close>, \<^verbatim>\<open>list\<close>
  and \<^verbatim>\<open>dict\<close> (with string keys, in insertion order). A float is represented by the
  exact number it denotes (every finite double is a rational), or by one of the three
  constants \<^verbatim>\<open>Infinity\<close>, \<^verbatim>\<open>-Infinity\<close>, \<^verbatim>\<open>NaN\<close> that Python's decoder accepts.
  A dictionary is an association list in insertion order; a dictionary that Python
  builds has no key twice. A character of a \<open>string\<close> stands for one element of a
  Python \<^verbatim>\<open>str\<close>.
\<close>

datatype pyfloat = Finite rat | PosInf | NegInf | NaN

datatype json =
    JNull
  | JBool bool
  | JInt int
  | JFloat pyfloat
  | JStr string
  | JArr "json list"
  | JObj "(string \<times> json) list"

text \<open>The exceptions that the script can let escape.\<close>

datatype py_error =
    FileNotFoundError
  | JSONDecodeError
  | AttributeError
  | TypeError
  | KeyError
  | IndexError

section \<open>The Python operations the script uses\<close>

text \<open>
  \<^verbatim>\<open>d.get(key, default)\<close>: only a \<^verbatim>\<open>dict\<close> has the method \<^verbatim>\<open>get\<close>; on any other
  value the attribute lookup raises \<^verbatim>\<open>AttributeError\<close>.
\<close>

fun py_get :: "json \<Rightarrow> string \<Rightarrow> json \<Rightarrow> py_error + json" where
  "py_get (JObj kvs) key dflt = (case map_of kvs key of None \<Rightarrow> Inr dflt | Some v \<Rightarrow> Inr v)"
| "py_get _ key dflt = Inl AttributeError"

text \<open>
  \<^verbatim>\<open>d[key] = v\<close> on a \<^verbatim>\<open>dict\<close>: an existing key keeps its position and gets the new
  value, a new key goes to the end.
\<close>

fun dict_set :: "string \<Rightarrow> json \<Rightarrow> (string \<times> json) list \<Rightarrow> (string \<times> json) list" where
  "dict_set key v [] = [(key, v)]"
| "dict_set key v ((k, w) # kvs) =
     (if k = key then (key, v) # kvs else (k, w) # dict_set key v kvs)"

text \<open>
  \<^verbatim>\<open>x == y\<close> on loaded values. \<^verbatim>\<open>bool\<close>, \<^verbatim>\<open>int\<close> and \<^verbatim>\<open>float\<close> compare by their
  numeric value (\<^verbatim>\<open>True == 1 == 1.0\<close>); two lists are equal when they have the same
  length and equal elements; two dictionaries are equal when they have the same number
  of keys and every key of the first is a key of the second with an equal value. The
  decoder returns one and the same object for every \<^verbatim>\<open>NaN\<close>, and membership and
  container comparison test identity before equality, so \<^verbatim>\<open>NaN\<close> counts as equal to
  itself here.
\<close>

fun num_val :: "json \<Rightarrow> pyfloat option" where
  "num_val (JBool b) = Some (Finite (if b then 1 else 0))"
| "num_val (JInt i) = Some (Finite (of_int i))"
| "num_val (JFloat f) = Some f"
| "num_val _ = None"

function py_eq :: "json \<Rightarrow> json \<Rightarrow> bool"
  and py_eq_list :: "json list \<Rightarrow> json list \<Rightarrow> bool"
  and py_eq_items :: "(string \<times> json) list \<Rightarrow> (string \<times> json) list \<Rightarrow> bool"
where
  "py_eq a b =
     (case a of
        JNull \<Rightarrow> (b = JNull)
      | JStr s \<Rightarrow> (b = JStr s)
      | JArr xs \<Rightarrow> (case b of JArr ys \<Rightarrow> py_eq_list xs ys | _ \<Rightarrow> False)
      | JObj m \<Rightarrow> (case b of JObj n \<Rightarrow> length m = length n \<and> py_eq_items m n | _ \<Rightarrow> False)
      | _ \<Rightarrow> (case num_val b of None \<Rightarrow> False | Some y \<Rightarrow> num_val a = Some y))"
| "py_eq_list [] ys = (ys = [])"
| "py_eq_list (x # xs) ys =
     (case ys of [] \<Rightarrow> False | y # ys' \<Rightarrow> py_eq x y \<and> py_eq_list xs ys')"
| "py_eq_items [] n = True"
| "py_eq_items ((k, v) # m) n =
     ((case map_of n k of None \<Rightarrow> False | Some w \<Rightarrow> py_eq v w) \<and> py_eq_items m n)"
  by pat_completeness auto
termination
  by (relation "measure (\<lambda>x. case x of
        Inl (a, b) \<Rightarrow> size a
      | Inr (Inl (xs, ys)) \<Rightarrow> size_list size xs
      | Inr (Inr (m, n)) \<Rightarrow> size_list (size_prod (\<lambda>k. 0) size) m)") auto

declare py_eq.simps(1) [simp del]

text \<open>Only lists and dictionaries are unhashable among the loaded values.\<close>

fun hashable :: "json \<Rightarrow> bool" where
  "hashable (JArr xs) = False"
| "hashable (JObj kvs) = False"
| "hashable _ = True"

text \<open>
  \<^verbatim>\<open>x in c\<close>. In a list it compares \<open>x\<close> with every element; in a \<^verbatim>\<open>str\<close> it is the
  substring test and needs a \<^verbatim>\<open>str\<close> on the left; in a \<^verbatim>\<open>dict\<close> it hashes \<open>x\<close>
  and looks for the key; every other value is not a container.
\<close>

fun py_contains :: "json \<Rightarrow> json \<Rightarrow> py_error + bool" where
  "py_contains x (JArr xs) = Inr (list_ex (\<lambda>item. py_eq item x) xs)"
| "py_contains x (JStr s) = (case x of JStr t \<Rightarrow> Inr (sublist t s) | _ \<Rightarrow> Inl TypeError)"
| "py_contains x (JObj kvs) =
     (if hashable x
      then Inr (case x of JStr k \<Rightarrow> k \<in> set (map fst kvs) | _ \<Rightarrow> False)
      else Inl TypeError)"
| "py_contains x _ = Inl TypeError"

text \<open>
  Iteration (\<^verbatim>\<open>for x in c\<close>, and the argument of \<^verbatim>\<open>list.extend\<close>): the elements of a
  list, the characters of a \<^verbatim>\<open>str\<close>, the keys of a \<^verbatim>\<open>dict\<close>.
\<close>

fun py_iter :: "json \<Rightarrow> py_error + json list" where
  "py_iter (JArr xs) = Inr xs"
| "py_iter (JStr s) = Inr (map (\<lambda>c. JStr [c]) s)"
| "py_iter (JObj kvs) = Inr (map (\<lambda>kv. JStr (fst kv)) kvs)"
| "py_iter _ = Inl TypeError"

text \<open>\<^verbatim>\<open>c.append(x)\<close> and \<^verbatim>\<open>c.extend(it)\<close>: methods of \<^verbatim>\<open>list\<close> only.\<close>

fun py_append :: "json \<Rightarrow> json \<Rightarrow> py_error + json" where
  "py_append (JArr xs) x = Inr (JArr (xs @ [x]))"
| "py_append _ x = Inl AttributeError"

fun py_extend :: "json \<Rightarrow> json \<Rightarrow> py_error + json" where
  "py_extend (JArr xs) it = (case py_iter it of Inl e \<Rightarrow> Inl e | Inr ys \<Rightarrow> Inr (JArr (xs @ ys)))"
| "py_extend _ it = Inl AttributeError"

text \<open>Truth value of a loaded value, as \<^verbatim>\<open>if\<close> and \<^verbatim>\<open>and\<close> test it.\<close>

fun py_truthy :: "json \<Rightarrow> bool" where
  "py_truthy JNull = False"
| "py_truthy (JBool b) = b"
| "py_truthy (JInt i) = (i \<noteq> 0)"
| "py_truthy (JFloat f) = (f \<noteq> Finite 0)"
| "py_truthy (JStr s) = (s \<noteq> [])"
| "py_truthy (JArr xs) = (xs \<noteq> [])"
| "py_truthy (JObj kvs) = (kvs \<noteq> [])"

text \<open>
  \<^verbatim>\<open>c[0]\<close>: the first element of a list or the first character of a \<^verbatim>\<open>str\<close>; a
  \<^verbatim>\<open>dict\<close> with string keys has no key \<open>0\<close>; the other values are not subscriptable.
\<close>

fun py_first :: "json \<Rightarrow> py_error + json" where
  "py_first (JArr xs) = (case xs of [] \<Rightarrow> Inl IndexError | x # _ \<Rightarrow> Inr x)"
| "py_first (JStr s) = (case s of [] \<Rightarrow> Inl IndexError | c # _ \<Rightarrow> Inr (JStr [c]))"
| "py_first (JObj kvs) = Inl KeyError"
| "py_first _ = Inl TypeError"

text \<open>\<^verbatim>\<open>d[key] = v\<close> with a string key: item assignment that only a \<^verbatim>\<open>dict\<close> accepts.\<close>

fun py_setitem :: "json \<Rightarrow> string \<Rightarrow> json \<Rightarrow> py_error + json" where
  "py_setitem (JObj kvs) key v = Inr (JObj (dict_set key v kvs))"
| "py_setitem _ key v = Inl TypeError"

text \<open>\<^verbatim>\<open>len(c)\<close>.\<close>

fun py_len :: "json \<Rightarrow> py_error + nat" where
  "py_len (JArr xs) = Inr (length xs)"
| "py_len (JStr s) = Inr (length s)"
| "py_len (JObj kvs) = Inr (length kvs)"
| "py_len _ = Inl TypeError"

section \<open>The merge in memory (lines 31 to 48 of \<open>main\<close>)\<close>

text \<open>
  The loop of lines 34 to 36 over the identifiers of the ListKit index:
  \<^verbatim>\<open>
  for aid in listkit_ids:
    if aid not in archive_ids:
      archive_ids.append(aid)
  \<close>
  \<open>archive_ids\<close> is the list being extended, the second argument what remains to iterate.
\<close>

fun add_ids :: "json \<Rightarrow> json list \<Rightarrow> py_error + json" where
  "add_ids archive_ids [] = Inr archive_ids"
| "add_ids archive_ids (aid # rest) =
     (case py_contains aid archive_ids of
        Inl e \<Rightarrow> Inl e
      | Inr True \<Rightarrow> add_ids archive_ids rest
      | Inr False \<Rightarrow>
          (case py_append archive_ids aid of
             Inl e \<Rightarrow> Inl e
           | Inr archive_ids' \<Rightarrow> add_ids archive_ids' rest))"

text \<open>
  Lines 32 to 37. The result is the primary index with the key set, and the value of
  \<open>archive_ids\<close> that line 54 prints.
\<close>

definition merge_ids :: "json \<Rightarrow> json \<Rightarrow> py_error + (json \<times> json)" where
  "merge_ids lists_index listkit_index =
     (case py_get lists_index ''includedArchiveIdentifiers'' (JArr []) of
        Inl e \<Rightarrow> Inl e
      | Inr archive_ids \<Rightarrow>
     (case py_get listkit_index ''includedArchiveIdentifiers'' (JArr []) of
        Inl e \<Rightarrow> Inl e
      | Inr listkit_ids \<Rightarrow>
     (case py_iter listkit_ids of
        Inl e \<Rightarrow> Inl e
      | Inr aids \<Rightarrow>
     (case add_ids archive_ids aids of
        Inl e \<Rightarrow> Inl e
      | Inr archive_ids' \<Rightarrow>
     (case py_setitem lists_index ''includedArchiveIdentifiers'' archive_ids' of
        Inl e \<Rightarrow> Inl e
      | Inr lists_index' \<Rightarrow> Inr (lists_index', archive_ids'))))))"

text \<open>
  The expression of lines 40 and 41:
  \<^verbatim>\<open>index.get("interfaceLanguages", {}).get("swift", [])\<close>.
\<close>

definition swift_items :: "json \<Rightarrow> py_error + json" where
  "swift_items index =
     (case py_get index ''interfaceLanguages'' (JObj []) of
        Inl e \<Rightarrow> Inl e
      | Inr langs \<Rightarrow> py_get langs ''swift'' (JArr []))"

text \<open>
  Lines 45 to 48 change the root node in place, and the root node is the first element
  of the list stored under \<^verbatim>\<open>"swift"\<close> in the dictionary stored under
  \<^verbatim>\<open>"interfaceLanguages"\<close> of the primary index. \<open>put_root\<close> stores the changed
  node back at that place; it is reached only when that place exists.
\<close>

definition put_root :: "json \<Rightarrow> json \<Rightarrow> json" where
  "put_root lists_index root' =
     (case lists_index of
        JObj kvs \<Rightarrow>
          (case map_of kvs ''interfaceLanguages'' of
             Some (JObj langs) \<Rightarrow>
               (case map_of langs ''swift'' of
                  Some (JArr (old # others)) \<Rightarrow>
                    JObj (dict_set ''interfaceLanguages''
                           (JObj (dict_set ''swift'' (JArr (root' # others)) langs)) kvs)
                | _ \<Rightarrow> lists_index)
           | _ \<Rightarrow> lists_index)
      | _ \<Rightarrow> lists_index)"

text \<open>
  Lines 40 to 48. The result is the primary index after the merge and the value of
  \<open>listkit_items\<close> that line 53 measures.
\<close>

definition merge_tree :: "json \<Rightarrow> json \<Rightarrow> py_error + (json \<times> json)" where
  "merge_tree lists_index listkit_index =
     (case swift_items listkit_index of
        Inl e \<Rightarrow> Inl e
      | Inr listkit_items \<Rightarrow>
     (case swift_items lists_index of
        Inl e \<Rightarrow> Inl e
      | Inr lists_items \<Rightarrow>
          if py_truthy lists_items \<and> py_truthy listkit_items then
            (case py_first lists_items of
               Inl e \<Rightarrow> Inl e
             | Inr root_node \<Rightarrow>
            (case py_get root_node ''children'' (JArr []) of
               Inl e \<Rightarrow> Inl e
             | Inr children \<Rightarrow>
            (case py_extend children listkit_items of
               Inl e \<Rightarrow> Inl e
             | Inr children' \<Rightarrow>
            (case py_setitem root_node ''children'' children' of
               Inl e \<Rightarrow> Inl e
             | Inr root' \<Rightarrow> Inr (put_root lists_index root', listkit_items)))))
          else Inr (lists_index, listkit_items)))"

text \<open>
  Lines 31 to 48 together: the primary index as it is written, \<open>listkit_items\<close> and
  \<open>archive_ids\<close>.
\<close>

definition merge_index :: "json \<Rightarrow> json \<Rightarrow> py_error + (json \<times> json \<times> json)" where
  "merge_index lists_index listkit_index =
     (case merge_ids lists_index listkit_index of
        Inl e \<Rightarrow> Inl e
      | Inr (lists_index', archive_ids) \<Rightarrow>
     (case merge_tree lists_index' listkit_index of
        Inl e \<Rightarrow> Inl e
      | Inr (lists_index'', listkit_items) \<Rightarrow> Inr (lists_index'', listkit_items, archive_ids)))"

section \<open>The program: files, output and exit status\<close>

text \<open>
  The world of one run: the files by path, the files the run has opened so far, and
  the lines printed on standard output. A printed line is kept as the values its
  f-string holds. \<open>loads\<close> and \<open>dumps\<close> stand for the \<^verbatim>\<open>json\<close> library: the parser
  (\<open>None\<close> when the text is not JSON) and the compact serialiser.
\<close>

datatype fs_op = OpenRead string | OpenWrite string

datatype out_line =
    Usage string
  | Merged nat string
  | ArchiveIdentifiers json

datatype status = Exit nat | Uncaught py_error

record world =
  files :: "string \<rightharpoonup> string"
  opened :: "fs_op list"
  stdout :: "out_line list"

text \<open>
  \<^verbatim>\<open>with open(path) as f: json.load(f)\<close>: a path with no file raises
  \<^verbatim>\<open>FileNotFoundError\<close>, a file that does not parse raises \<^verbatim>\<open>JSONDecodeError\<close>.
\<close>

definition read_json :: "(string \<Rightarrow> json option) \<Rightarrow> string \<Rightarrow> world \<Rightarrow> world \<times> (py_error + json)" where
  "read_json loads path w =
     (let w' = w\<lparr>opened := opened w @ [OpenRead path]\<rparr>
      in (case files w path of
            None \<Rightarrow> (w', Inl FileNotFoundError)
          | Some text \<Rightarrow>
              (case loads text of
                 None \<Rightarrow> (w', Inl JSONDecodeError)
               | Some j \<Rightarrow> (w', Inr j))))"

text \<open>
  \<^verbatim>\<open>with open(path, "w") as f: json.dump(index, f, separators=(",", ":"))\<close>.
  Opening for writing and the writing itself are taken to succeed; the file then holds
  the serialised document.
\<close>

definition write_json :: "(json \<Rightarrow> string) \<Rightarrow> string \<Rightarrow> json \<Rightarrow> world \<Rightarrow> world" where
  "write_json dumps path j w =
     w\<lparr>files := (files w)(path \<mapsto> dumps j), opened := opened w @ [OpenWrite path]\<rparr>"

text \<open>
  \<open>main\<close>, run as a script: \<^verbatim>\<open>sys.argv\<close> is the program name followed by the
  positional arguments. \<^verbatim>\<open>sys.exit(1)\<close> ends the run with \<open>Exit 1\<close>, falling off the
  end of \<open>main\<close> with \<open>Exit 0\<close>, and an exception that nothing catches with
  \<open>Uncaught\<close>. \<open>Merged n path\<close> is the line of line 53, with \<open>n\<close> the value of
  \<^verbatim>\<open>len(listkit_items)\<close>, and \<open>ArchiveIdentifiers\<close> the line of line 54.
\<close>

definition main ::
  "(string \<Rightarrow> json option) \<Rightarrow> (json \<Rightarrow> string) \<Rightarrow> string \<Rightarrow> string list \<Rightarrow> world \<Rightarrow> world \<times> status"
where
  "main loads dumps prog args w =
     (let argv = prog # args in
      if length argv \<noteq> 3 then (w\<lparr>stdout := stdout w @ [Usage (argv ! 0)]\<rparr>, Exit 1)
      else
        let listkit_archive = argv ! 1;
            docs_dir = argv ! 2;
            lists_index_path = docs_dir @ ''/index/index.json'';
            listkit_index_path = listkit_archive @ ''/index/index.json''
        in (case read_json loads lists_index_path w of
              (w1, Inl e) \<Rightarrow> (w1, Uncaught e)
            | (w1, Inr lists_index) \<Rightarrow>
           (case read_json loads listkit_index_path w1 of
              (w2, Inl e) \<Rightarrow> (w2, Uncaught e)
            | (w2, Inr listkit_index) \<Rightarrow>
           (case merge_index lists_index listkit_index of
              Inl e \<Rightarrow> (w2, Uncaught e)
            | Inr (lists_index', listkit_items, archive_ids) \<Rightarrow>
               (let w3 = write_json dumps lists_index_path lists_index' w2
                in (case py_len listkit_items of
                      Inl e \<Rightarrow> (w3, Uncaught e)
                    | Inr n \<Rightarrow>
                        (w3\<lparr>stdout := stdout w3 @
                               [Merged n lists_index_path, ArchiveIdentifiers archive_ids]\<rparr>,
                         Exit 0)))))))"

section \<open>The vocabulary of the properties\<close>

text \<open>
  The specification speaks of the elements of the secondary list ``not already
  present, preserving first-seen order'': of a list, \<open>first_occurrences\<close> keeps each
  element where it occurs first.
\<close>

fun first_occurrences :: "'a list \<Rightarrow> 'a list" where
  "first_occurrences [] = []"
| "first_occurrences (x # xs) = x # first_occurrences (filter (\<lambda>y. y \<noteq> x) xs)"

text \<open>
  The shape of a Navigation Index Document (section 3 of the specification), every
  field optional: a dictionary whose \<^verbatim>\<open>includedArchiveIdentifiers\<close>, when present,
  is a list of strings and whose \<^verbatim>\<open>interfaceLanguages\<close>, when present, is a
  dictionary whose \<^verbatim>\<open>swift\<close> entry, when present, is a list of navigation nodes; a
  navigation node is a dictionary whose \<^verbatim>\<open>children\<close>, when present, is a list.
\<close>

fun is_str :: "json \<Rightarrow> bool" where
  "is_str (JStr s) = True"
| "is_str _ = False"

fun ids_shape :: "json \<Rightarrow> bool" where
  "ids_shape (JArr xs) = list_all is_str xs"
| "ids_shape _ = False"

fun children_shape :: "json option \<Rightarrow> bool" where
  "children_shape None = True"
| "children_shape (Some (JArr cs)) = True"
| "children_shape (Some _) = False"

fun node_shape :: "json \<Rightarrow> bool" where
  "node_shape (JObj kvs) = children_shape (map_of kvs ''children'')"
| "node_shape _ = False"

fun nodes_shape :: "json \<Rightarrow> bool" where
  "nodes_shape (JArr ns) = list_all node_shape ns"
| "nodes_shape _ = False"

fun langs_shape :: "json \<Rightarrow> bool" where
  "langs_shape (JObj kvs) = (case map_of kvs ''swift'' of None \<Rightarrow> True | Some ns \<Rightarrow> nodes_shape ns)"
| "langs_shape _ = False"

fun index_shape :: "json \<Rightarrow> bool" where
  "index_shape (JObj kvs) =
     ((case map_of kvs ''includedArchiveIdentifiers'' of None \<Rightarrow> True | Some ids \<Rightarrow> ids_shape ids) \<and>
      (case map_of kvs ''interfaceLanguages'' of None \<Rightarrow> True | Some langs \<Rightarrow> langs_shape langs))"
| "index_shape _ = False"

text \<open>
  An index lacks its language entry when it has no \<^verbatim>\<open>interfaceLanguages\<close>, or when
  the dictionary stored there has no \<^verbatim>\<open>swift\<close>.
\<close>

fun lacks_swift :: "json \<Rightarrow> bool" where
  "lacks_swift (JObj kvs) =
     (case map_of kvs ''interfaceLanguages'' of
        None \<Rightarrow> True
      | Some (JObj langs) \<Rightarrow> map_of langs ''swift'' = None
      | Some _ \<Rightarrow> False)"
| "lacks_swift _ = False"

text \<open>
  Inputs for the examples: the primary and the secondary index of Examples 1 and 3 of
  the specification (a root node with the one child \<open>X\<close>; the top-level nodes \<open>Y\<close> and
  \<open>Z\<close>), a primary index whose sequence under \<^verbatim>\<open>"swift"\<close> is empty, and a world with
  the two index files, holding the given texts, where the program
  \<^verbatim>\<open>merge-docs-index.py ListKit.doccarchive docs\<close> looks for them.
\<close>

abbreviation node :: "string \<Rightarrow> json" where
  "node title \<equiv> JObj [(''title'', JStr title)]"

abbreviation example_root :: json where
  "example_root \<equiv> JObj [(''title'', JStr ''Lists''), (''children'', JArr [node ''X''])]"

abbreviation example_primary :: json where
  "example_primary \<equiv>
     JObj [(''includedArchiveIdentifiers'', JArr [JStr ''com.listkit.Lists'']),
           (''interfaceLanguages'', JObj [(''swift'', JArr [example_root])])]"

abbreviation example_unmerged :: json where
  "example_unmerged \<equiv>
     JObj [(''includedArchiveIdentifiers'', JArr [JStr ''com.listkit.Lists'']),
           (''interfaceLanguages'', JObj [(''swift'', JArr [])])]"

abbreviation example_secondary :: json where
  "example_secondary \<equiv>
     JObj [(''includedArchiveIdentifiers'', JArr [JStr ''com.listkit.ListKit'']),
           (''interfaceLanguages'', JObj [(''swift'', JArr [node ''Y'', node ''Z''])])]"

abbreviation example_world :: "string \<Rightarrow> string \<Rightarrow> world" where
  "example_world primary_text secondary_text \<equiv>
     \<lparr>files = [''docs/index/index.json'' \<mapsto> primary_text,
                ''ListKit.doccarchive/index/index.json'' \<mapsto> secondary_text],
      opened = [], stdout = []\<rparr>"

section \<open>Lemmas about the operations\<close>

lemma py_eq_JStr: "py_eq item (JStr s) = (item = JStr s)"
  by (cases item) (auto simp: py_eq.simps)

lemma py_contains_JStr_list: "py_contains (JStr s) (JArr xs) = Inr (JStr s \<in> set xs)"
  by (simp add: py_eq_JStr list_ex_iff)

lemma set_first_occurrences: "set (first_occurrences xs) = set xs"
  by (induction xs rule: first_occurrences.induct) auto

lemma distinct_first_occurrences: "distinct (first_occurrences xs)"
  by (induction xs rule: first_occurrences.induct) (auto simp: set_first_occurrences)

lemma filter_neq_absent: "a \<notin> set xs \<Longrightarrow> filter (\<lambda>y. y \<noteq> a) xs = xs"
  by (induction xs) auto

lemma first_occurrences_distinct: "distinct xs \<Longrightarrow> first_occurrences xs = xs"
  by (induction xs) (simp_all add: filter_neq_absent)

lemma add_ids_strings:
  "add_ids (JArr xs) (map JStr bs) =
     Inr (JArr (xs @ map JStr (first_occurrences (filter (\<lambda>b. JStr b \<notin> set xs) bs))))"
proof (induction bs arbitrary: xs)
  case Nil
  show ?case by simp
next
  case (Cons b bs)
  show ?case
  proof (cases "JStr b \<in> set xs")
    case True
    then show ?thesis using Cons.IH [of xs] by (simp add: py_contains_JStr_list del: py_contains.simps)
  next
    case False
    have "filter (\<lambda>c. JStr c \<notin> set (xs @ [JStr b])) bs
        = filter (\<lambda>y. y \<noteq> b) (filter (\<lambda>c. JStr c \<notin> set xs) bs)"
      by (induction bs) auto
    then show ?thesis using False Cons.IH [of "xs @ [JStr b]"]
      by (simp add: py_contains_JStr_list del: py_contains.simps)
  qed
qed

lemma add_ids_string_lists:
  "add_ids (JArr (map JStr A)) (map JStr B) =
     Inr (JArr (map JStr (A @ first_occurrences (filter (\<lambda>b. b \<notin> set A) B))))"
proof -
  have "filter (\<lambda>b. JStr b \<notin> set (map JStr A)) B = filter (\<lambda>b. b \<notin> set A) B"
    by (rule filter_cong) auto
  then show ?thesis by (simp add: add_ids_strings)
qed

lemma map_of_dict_set: "map_of (dict_set key v kvs) = (map_of kvs)(key \<mapsto> v)"
  by (induction kvs) (auto simp: fun_eq_iff)

lemma dict_set_twice: "dict_set key v (dict_set key v kvs) = dict_set key v kvs"
  by (induction kvs) auto

lemma py_get_dict_set_same: "py_get (JObj (dict_set key v kvs)) key d = Inr v"
  by (simp add: map_of_dict_set)

lemma py_get_InrD: "py_get j key d = Inr v \<Longrightarrow> \<exists>kvs. j = JObj kvs"
  by (cases j) auto

lemma swift_items_dict_set_ids:
  "swift_items (JObj (dict_set ''includedArchiveIdentifiers'' v kvs)) = swift_items (JObj kvs)"
  by (simp add: swift_items_def map_of_dict_set)

lemma swift_items_nonemptyD:
  assumes "swift_items index = Inr (JArr (x # xs))"
  shows "\<exists>kvs langs. index = JObj kvs \<and> map_of kvs ''interfaceLanguages'' = Some (JObj langs)
            \<and> map_of langs ''swift'' = Some (JArr (x # xs))"
proof -
  from assms obtain kvs where kvs: "index = JObj kvs"
    by (cases index) (auto simp: swift_items_def)
  from assms kvs obtain l where l: "map_of kvs ''interfaceLanguages'' = Some l"
    by (cases "map_of kvs ''interfaceLanguages''") (auto simp: swift_items_def)
  from assms kvs l obtain langs where langs: "l = JObj langs"
    by (cases l) (auto simp: swift_items_def)
  from assms kvs l langs have "map_of langs ''swift'' = Some (JArr (x # xs))"
    by (cases "map_of langs ''swift''") (auto simp: swift_items_def)
  with kvs l langs show ?thesis by simp
qed

lemma swift_items_put_root:
  assumes "swift_items index = Inr (JArr (old # others))"
  shows "swift_items (put_root index r') = Inr (JArr (r' # others))"
proof -
  from swift_items_nonemptyD [OF assms] obtain kvs langs where
    "index = JObj kvs" "map_of kvs ''interfaceLanguages'' = Some (JObj langs)"
    "map_of langs ''swift'' = Some (JArr (old # others))" by blast
  then show ?thesis by (simp add: put_root_def swift_items_def map_of_dict_set)
qed

lemma py_get_put_root_ids:
  "py_get (put_root index r') ''includedArchiveIdentifiers'' d
     = py_get index ''includedArchiveIdentifiers'' d"
  by (auto simp: put_root_def map_of_dict_set split: json.splits option.splits list.splits)

lemma merge_tree_append:
  assumes "swift_items lists_index = Inr (JArr (JObj rt # others))"
    and "swift_items listkit_index = Inr (JArr (y # ys))"
    and "py_get (JObj rt) ''children'' (JArr []) = Inr (JArr cs)"
  shows "merge_tree lists_index listkit_index =
           Inr (put_root lists_index (JObj (dict_set ''children'' (JArr (cs @ y # ys)) rt)),
                JArr (y # ys))"
  using assms by (simp add: merge_tree_def)

lemma merge_tree_skip:
  assumes "swift_items lists_index = Inr a" and "swift_items listkit_index = Inr b"
    and "\<not> (py_truthy a \<and> py_truthy b)"
  shows "merge_tree lists_index listkit_index = Inr (lists_index, b)"
  using assms by (auto simp: merge_tree_def)

lemma merge_ids_lists:
  assumes "py_get (JObj p) ''includedArchiveIdentifiers'' (JArr []) = Inr (JArr A)"
    and "py_get listkit_index ''includedArchiveIdentifiers'' (JArr []) = Inr (JArr B)"
    and "add_ids (JArr A) B = Inr ids"
  shows "merge_ids (JObj p) listkit_index =
           Inr (JObj (dict_set ''includedArchiveIdentifiers'' ids p), ids)"
  using assms by (simp add: merge_ids_def)

lemma add_ids_list: "\<exists>ys. add_ids (JArr xs) bs = Inr (JArr (xs @ ys))"
proof (induction bs arbitrary: xs)
  case Nil
  show ?case by simp
next
  case (Cons b bs)
  show ?case
  proof (cases "list_ex (\<lambda>item. py_eq item b) xs")
    case True
    then show ?thesis using Cons.IH [of xs] by simp
  next
    case False
    then show ?thesis using Cons.IH [of "xs @ [b]"] by auto
  qed
qed

lemma add_ids_again:
  "add_ids (JArr (map JStr (A @ first_occurrences (filter (\<lambda>b. b \<notin> set A) B)))) (map JStr B) =
     Inr (JArr (map JStr (A @ first_occurrences (filter (\<lambda>b. b \<notin> set A) B))))"
proof -
  let ?M = "A @ first_occurrences (filter (\<lambda>b. b \<notin> set A) B)"
  have "set B \<subseteq> set ?M" by (auto simp: set_first_occurrences)
  then have "filter (\<lambda>b. b \<notin> set ?M) B = []" by (auto simp: filter_empty_conv)
  then show ?thesis using add_ids_string_lists [of ?M B] by simp
qed

lemma merge_ids_strings:
  assumes "py_get lists_index ''includedArchiveIdentifiers'' (JArr []) = Inr (JArr (map JStr A))"
    and "py_get listkit_index ''includedArchiveIdentifiers'' (JArr []) = Inr (JArr (map JStr B))"
  shows "\<exists>p. lists_index = JObj p \<and> merge_ids lists_index listkit_index =
           Inr (JObj (dict_set ''includedArchiveIdentifiers''
                  (JArr (map JStr (A @ first_occurrences (filter (\<lambda>b. b \<notin> set A) B)))) p),
                JArr (map JStr (A @ first_occurrences (filter (\<lambda>b. b \<notin> set A) B))))"
proof -
  from py_get_InrD [OF assms(1)] obtain p where p: "lists_index = JObj p" by blast
  show ?thesis
    using merge_ids_lists [OF assms(1) [unfolded p] assms(2) add_ids_string_lists] p by simp
qed

lemma merge_ids_any_lists:
  assumes "py_get lists_index ''includedArchiveIdentifiers'' (JArr []) = Inr (JArr A)"
    and "py_get listkit_index ''includedArchiveIdentifiers'' (JArr []) = Inr (JArr B)"
  shows "\<exists>p M. lists_index = JObj p \<and> merge_ids lists_index listkit_index =
           Inr (JObj (dict_set ''includedArchiveIdentifiers'' (JArr (A @ M)) p), JArr (A @ M))"
proof -
  from py_get_InrD [OF assms(1)] obtain p where p: "lists_index = JObj p" by blast
  from add_ids_list [of A B] obtain M where M: "add_ids (JArr A) B = Inr (JArr (A @ M))" by blast
  show ?thesis
    using merge_ids_lists [OF assms(1) [unfolded p] assms(2) M] p by blast
qed

lemma merge_index_append:
  assumes ids: "merge_ids lists_index listkit_index =
                  Inr (JObj (dict_set ''includedArchiveIdentifiers'' ids p), ids)"
    and p: "lists_index = JObj p"
    and items: "swift_items lists_index = Inr (JArr (root_node # others))"
    and kit: "swift_items listkit_index = Inr (JArr (y # ys))"
    and cs: "py_get root_node ''children'' (JArr []) = Inr (JArr cs)"
  shows "\<exists>lists_index' root'.
           merge_index lists_index listkit_index = Inr (lists_index', JArr (y # ys), ids)
         \<and> swift_items lists_index' = Inr (JArr (root' # others))
         \<and> py_get root' ''children'' (JArr []) = Inr (JArr (cs @ y # ys))
         \<and> py_get lists_index' ''includedArchiveIdentifiers'' (JArr []) = Inr ids"
proof -
  let ?p1 = "JObj (dict_set ''includedArchiveIdentifiers'' ids p)"
  from py_get_InrD [OF cs] obtain rt where rt: "root_node = JObj rt" by blast
  let ?r' = "JObj (dict_set ''children'' (JArr (cs @ y # ys)) rt)"
  have items1: "swift_items ?p1 = Inr (JArr (JObj rt # others))"
    using items p rt by (simp add: swift_items_dict_set_ids)
  have tree: "merge_tree ?p1 listkit_index = Inr (put_root ?p1 ?r', JArr (y # ys))"
    using merge_tree_append [OF items1 kit cs [unfolded rt]] .
  have "merge_index lists_index listkit_index = Inr (put_root ?p1 ?r', JArr (y # ys), ids)"
    using ids tree by (simp add: merge_index_def)
  moreover have "swift_items (put_root ?p1 ?r') = Inr (JArr (?r' # others))"
    using swift_items_put_root [OF items1] .
  moreover have "py_get ?r' ''children'' (JArr []) = Inr (JArr (cs @ y # ys))"
    by (rule py_get_dict_set_same)
  moreover have "py_get (put_root ?p1 ?r') ''includedArchiveIdentifiers'' (JArr []) = Inr ids"
    by (simp only: py_get_put_root_ids py_get_dict_set_same)
  ultimately show ?thesis by blast
qed

lemma is_strD: "is_str x \<Longrightarrow> \<exists>a. x = JStr a"
  by (cases x) auto

lemma list_all_is_strD: "list_all is_str xs \<Longrightarrow> \<exists>A. xs = map JStr A"
  by (simp add: ex_map_conv list_all_iff is_strD)

lemma ids_shapeD: "ids_shape v \<Longrightarrow> \<exists>A. v = JArr (map JStr A)"
  by (cases v) (auto dest: list_all_is_strD)

lemma index_shape_idsD:
  assumes "index_shape (JObj kvs)"
  shows "\<exists>A. py_get (JObj kvs) ''includedArchiveIdentifiers'' (JArr []) = Inr (JArr (map JStr A))"
proof (cases "map_of kvs ''includedArchiveIdentifiers''")
  case None
  then have "py_get (JObj kvs) ''includedArchiveIdentifiers'' (JArr []) = Inr (JArr (map JStr []))"
    by simp
  then show ?thesis by blast
next
  case (Some v)
  with assms have "ids_shape v" by simp
  from ids_shapeD [OF this] Some show ?thesis by auto
qed

lemma nodes_shapeD: "nodes_shape v \<Longrightarrow> \<exists>ns. v = JArr ns \<and> list_all node_shape ns"
  by (cases v) auto

lemma langs_shape_swiftD:
  assumes "langs_shape l"
  shows "\<exists>ns. py_get l ''swift'' (JArr []) = Inr (JArr ns) \<and> list_all node_shape ns"
proof -
  from assms obtain langs where l: "l = JObj langs" by (cases l) auto
  show ?thesis
  proof (cases "map_of langs ''swift''")
    case None
    then show ?thesis using l by simp
  next
    case (Some v)
    with assms l have "nodes_shape v" by simp
    from nodes_shapeD [OF this] Some l show ?thesis by auto
  qed
qed

lemma index_shape_swiftD:
  assumes "index_shape (JObj kvs)"
  shows "\<exists>ns. swift_items (JObj kvs) = Inr (JArr ns) \<and> list_all node_shape ns"
proof (cases "map_of kvs ''interfaceLanguages''")
  case None
  then show ?thesis by (simp add: swift_items_def)
next
  case (Some l)
  with assms have "langs_shape l" by simp
  from langs_shape_swiftD [OF this] Some show ?thesis by (simp add: swift_items_def)
qed

lemma node_shapeD:
  assumes "node_shape n"
  shows "\<exists>cs. py_get n ''children'' (JArr []) = Inr (JArr cs)"
proof -
  from assms obtain rt where rt: "n = JObj rt" by (cases n) auto
  show ?thesis
  proof (cases "map_of rt ''children''")
    case None
    then show ?thesis using rt by simp
  next
    case (Some c)
    with assms rt obtain cs where "c = JArr cs" by (cases c) auto
    with Some rt show ?thesis by simp
  qed
qed

lemma lacks_swift_items: "lacks_swift index \<Longrightarrow> swift_items index = Inr (JArr [])"
  by (cases index) (auto simp: swift_items_def split: option.splits json.splits)

lemma merge_index_shape:
  assumes "index_shape (JObj p)" and "index_shape (JObj s)"
    and "py_get (JObj p) ''includedArchiveIdentifiers'' (JArr []) = Inr (JArr (map JStr A))"
    and "py_get (JObj s) ''includedArchiveIdentifiers'' (JArr []) = Inr (JArr (map JStr B))"
  shows "\<exists>lists_index' items.
           merge_index (JObj p) (JObj s) =
             Inr (lists_index', JArr items,
                  JArr (map JStr (A @ first_occurrences (filter (\<lambda>b. b \<notin> set A) B))))
         \<and> (swift_items (JObj p) = Inr (JArr []) \<or> swift_items (JObj s) = Inr (JArr []) \<longrightarrow>
              lists_index' = JObj (dict_set ''includedArchiveIdentifiers''
                (JArr (map JStr (A @ first_occurrences (filter (\<lambda>b. b \<notin> set A) B)))) p))"
proof -
  let ?ids = "JArr (map JStr (A @ first_occurrences (filter (\<lambda>b. b \<notin> set A) B)))"
  let ?p1 = "JObj (dict_set ''includedArchiveIdentifiers'' ?ids p)"
  from merge_ids_strings [OF assms(3,4)]
  have ids: "merge_ids (JObj p) (JObj s) = Inr (?p1, ?ids)" by simp
  from index_shape_swiftD [OF assms(1)] obtain ns where
    ns: "swift_items (JObj p) = Inr (JArr ns)" "list_all node_shape ns" by blast
  from index_shape_swiftD [OF assms(2)] obtain ms where
    ms: "swift_items (JObj s) = Inr (JArr ms)" by blast
  show ?thesis
  proof (cases "ns = [] \<or> ms = []")
    case True
    have 1: "swift_items ?p1 = Inr (JArr ns)" using ns(1) by (simp add: swift_items_dict_set_ids)
    have "\<not> (py_truthy (JArr ns) \<and> py_truthy (JArr ms))" using True by auto
    with 1 ms have "merge_tree ?p1 (JObj s) = Inr (?p1, JArr ms)" by (rule merge_tree_skip)
    with ids have "merge_index (JObj p) (JObj s) = Inr (?p1, JArr ms, ?ids)"
      by (simp add: merge_index_def)
    then show ?thesis by blast
  next
    case False
    then obtain r others y ys where ne: "ns = r # others" "ms = y # ys"
      by (cases ns; cases ms) auto
    with ns(2) have "node_shape r" by simp
    from node_shapeD [OF this] obtain cs where
      cs: "py_get r ''children'' (JArr []) = Inr (JArr cs)" by blast
    from merge_index_append [OF ids refl ns(1) [unfolded ne] ms [unfolded ne] cs]
    obtain lists_index' where
      "merge_index (JObj p) (JObj s) = Inr (lists_index', JArr (y # ys), ?ids)" by blast
    moreover have "\<not> (swift_items (JObj p) = Inr (JArr []) \<or> swift_items (JObj s) = Inr (JArr []))"
      using ns(1) ms ne by simp
    ultimately show ?thesis by blast
  qed
qed

lemma read_json_fst: "fst (read_json loads path w) = w\<lparr>opened := opened w @ [OpenRead path]\<rparr>"
  by (simp add: read_json_def Let_def split: option.splits)

lemma read_json_snd_opened:
  "snd (read_json loads path (w\<lparr>opened := ops\<rparr>)) = snd (read_json loads path w)"
  by (simp add: read_json_def Let_def split: option.splits)

lemma read_json_unfold: "read_json loads path w =
   (w\<lparr>opened := opened w @ [OpenRead path]\<rparr>, snd (read_json loads path w))"
  using read_json_fst [of loads path w] by (metis prod.collapse)

lemma read_json_Inr:
  "files w path = Some t \<Longrightarrow> loads t = Some j \<Longrightarrow> snd (read_json loads path w) = Inr j"
  by (simp add: read_json_def Let_def)

lemma main_usage:
  "length args \<noteq> 2 \<Longrightarrow>
     main loads dumps prog args w = (w\<lparr>stdout := stdout w @ [Usage prog]\<rparr>, Exit 1)"
  by (simp add: main_def Let_def)

lemma main_first_read_fails:
  assumes "snd (read_json loads (d @ ''/index/index.json'') w) = Inl e"
  shows "main loads dumps prog [a, d] w =
           (w\<lparr>opened := opened w @ [OpenRead (d @ ''/index/index.json'')]\<rparr>, Uncaught e)"
  using assms read_json_unfold [of loads "d @ ''/index/index.json''" w]
  by (simp add: main_def Let_def)

lemma main_second_read_fails:
  assumes "snd (read_json loads (d @ ''/index/index.json'') w) = Inr P"
    and "snd (read_json loads (a @ ''/index/index.json'') w) = Inl e"
  shows "main loads dumps prog [a, d] w =
           (w\<lparr>opened := opened w @ [OpenRead (d @ ''/index/index.json''),
                                      OpenRead (a @ ''/index/index.json'')]\<rparr>, Uncaught e)"
proof -
  let ?w1 = "w\<lparr>opened := opened w @ [OpenRead (d @ ''/index/index.json'')]\<rparr>"
  have 1: "read_json loads (d @ ''/index/index.json'') w = (?w1, Inr P)"
    using assms(1) read_json_unfold [of loads "d @ ''/index/index.json''" w] by simp
  have 2: "read_json loads (a @ ''/index/index.json'') ?w1 =
             (?w1\<lparr>opened := opened ?w1 @ [OpenRead (a @ ''/index/index.json'')]\<rparr>, Inl e)"
    using assms(2) read_json_unfold [of loads "a @ ''/index/index.json''" ?w1]
    by (simp add: read_json_snd_opened)
  show ?thesis by (simp add: main_def Let_def 1 2)
qed

lemma main_merge_fails:
  assumes "snd (read_json loads (d @ ''/index/index.json'') w) = Inr P"
    and "snd (read_json loads (a @ ''/index/index.json'') w) = Inr S"
    and "merge_index P S = Inl e"
  shows "main loads dumps prog [a, d] w =
           (w\<lparr>opened := opened w @ [OpenRead (d @ ''/index/index.json''),
                                      OpenRead (a @ ''/index/index.json'')]\<rparr>, Uncaught e)"
proof -
  let ?w1 = "w\<lparr>opened := opened w @ [OpenRead (d @ ''/index/index.json'')]\<rparr>"
  have 1: "read_json loads (d @ ''/index/index.json'') w = (?w1, Inr P)"
    using assms(1) read_json_unfold [of loads "d @ ''/index/index.json''" w] by simp
  have 2: "read_json loads (a @ ''/index/index.json'') ?w1 =
             (?w1\<lparr>opened := opened ?w1 @ [OpenRead (a @ ''/index/index.json'')]\<rparr>, Inr S)"
    using assms(2) read_json_unfold [of loads "a @ ''/index/index.json''" ?w1]
    by (simp add: read_json_snd_opened)
  show ?thesis by (simp add: main_def Let_def 1 2 assms(3))
qed

lemma main_merged:
  assumes "snd (read_json loads (d @ ''/index/index.json'') w) = Inr P"
    and "snd (read_json loads (a @ ''/index/index.json'') w) = Inr S"
    and "merge_index P S = Inr (merged, items, ids)"
  shows "main loads dumps prog [a, d] w =
           (case py_len items of
              Inl e \<Rightarrow>
                (w\<lparr>files := (files w)(d @ ''/index/index.json'' \<mapsto> dumps merged),
                   opened := opened w @ [OpenRead (d @ ''/index/index.json''),
                                         OpenRead (a @ ''/index/index.json''),
                                         OpenWrite (d @ ''/index/index.json'')]\<rparr>,
                 Uncaught e)
            | Inr n \<Rightarrow>
                (w\<lparr>files := (files w)(d @ ''/index/index.json'' \<mapsto> dumps merged),
                   opened := opened w @ [OpenRead (d @ ''/index/index.json''),
                                         OpenRead (a @ ''/index/index.json''),
                                         OpenWrite (d @ ''/index/index.json'')],
                   stdout := stdout w @ [Merged n (d @ ''/index/index.json''),
                                         ArchiveIdentifiers ids]\<rparr>,
                 Exit 0))"
proof -
  let ?w1 = "w\<lparr>opened := opened w @ [OpenRead (d @ ''/index/index.json'')]\<rparr>"
  have 1: "read_json loads (d @ ''/index/index.json'') w = (?w1, Inr P)"
    using assms(1) read_json_unfold [of loads "d @ ''/index/index.json''" w] by simp
  have 2: "read_json loads (a @ ''/index/index.json'') ?w1 =
             (?w1\<lparr>opened := opened ?w1 @ [OpenRead (a @ ''/index/index.json'')]\<rparr>, Inr S)"
    using assms(2) read_json_unfold [of loads "a @ ''/index/index.json''" ?w1]
    by (simp add: read_json_snd_opened)
  show ?thesis
    by (simp add: main_def Let_def 1 2 assms(3) write_json_def split: sum.splits)
qed


lemma merge_ids_InrD:
  assumes "merge_ids lists_index listkit_index = Inr (lists_index', ids)"
  shows "\<exists>p. lists_index = JObj p \<and>
           lists_index' = JObj (dict_set ''includedArchiveIdentifiers'' ids p)"
proof -
  from assms obtain p where p: "lists_index = JObj p"
    by (cases lists_index) (auto simp: merge_ids_def)
  with assms show ?thesis
    by (auto simp: merge_ids_def split: sum.splits)
qed

lemma keys_dict_set_present:
  "map_of kvs key = Some x \<Longrightarrow> map fst (dict_set key v kvs) = map fst kvs"
  by (induction kvs) (auto split: if_splits)

lemma put_root_frame:
  "\<exists>kvs'. put_root (JObj kvs) r' = JObj kvs' \<and> map fst kvs' = map fst kvs \<and>
     (\<forall>k. k \<noteq> ''interfaceLanguages'' \<longrightarrow> map_of kvs' k = map_of kvs k)"
  by (auto simp: put_root_def map_of_dict_set keys_dict_set_present
           split: json.splits option.splits list.splits)

lemma merge_tree_frame:
  assumes "merge_tree (JObj kvs) listkit_index = Inr (merged, items)"
  shows "\<exists>kvs'. merged = JObj kvs' \<and> map fst kvs' = map fst kvs \<and>
     (\<forall>k. k \<noteq> ''interfaceLanguages'' \<longrightarrow> map_of kvs' k = map_of kvs k)"
proof -
  from assms have "merged = JObj kvs \<or> (\<exists>r'. merged = put_root (JObj kvs) r')"
    by (auto simp: merge_tree_def split: sum.splits if_splits)
  then show ?thesis using put_root_frame by auto
qed

lemma merge_index_frame:
  assumes "merge_index (JObj p) listkit_index = Inr (merged, items, ids)"
  shows "merge_ids (JObj p) listkit_index =
           Inr (JObj (dict_set ''includedArchiveIdentifiers'' ids p), ids)
       \<and> (\<exists>kvs. merged = JObj kvs
           \<and> map fst kvs = map fst (dict_set ''includedArchiveIdentifiers'' ids p)
           \<and> (\<forall>k. k \<noteq> ''interfaceLanguages'' \<longrightarrow>
                 map_of kvs k = map_of (dict_set ''includedArchiveIdentifiers'' ids p) k))"
proof -
  from assms obtain p1 where
    1: "merge_ids (JObj p) listkit_index = Inr (p1, ids)" and
    2: "merge_tree p1 listkit_index = Inr (merged, items)"
    by (auto simp: merge_index_def split: sum.splits)
  from merge_ids_InrD [OF 1] have
    p: "p1 = JObj (dict_set ''includedArchiveIdentifiers'' ids p)" by simp
  from merge_tree_frame [OF 2 [unfolded p]] 1 p show ?thesis by simp
qed

lemma merge_index_no_ids:
  assumes "merge_index (JObj p) (JObj s) = Inr (merged, items, ids)"
    and "map_of p ''includedArchiveIdentifiers'' = None"
    and "map_of s ''includedArchiveIdentifiers'' = None"
  shows "ids = JArr []"
  using assms by (auto simp: merge_index_def merge_ids_def split: sum.splits)

section \<open>The identifier list\<close>

text \<open>
  Claim C1, as the code has it. Let \<open>A\<close> be the identifiers of the primary index (the
  empty list when the key is absent) and \<open>B\<close> those of the secondary index. The merged
  list, which is both stored under \<^verbatim>\<open>includedArchiveIdentifiers\<close> and printed, is \<open>A\<close>
  followed by the elements of \<open>B\<close> that are not in \<open>A\<close>, each once, at its first
  occurrence in \<open>B\<close>. When no element occurs twice in \<open>A\<close>, none occurs twice in the
  merged list; and when none occurs twice in \<open>B\<close>, the appended part is exactly the
  elements of \<open>B\<close> not in \<open>A\<close>, in the order of \<open>B\<close>.
\<close>

theorem merge_ids_first_seen:
  assumes "py_get lists_index ''includedArchiveIdentifiers'' (JArr []) = Inr (JArr (map JStr A))"
    and "py_get listkit_index ''includedArchiveIdentifiers'' (JArr []) = Inr (JArr (map JStr B))"
  shows "\<exists>lists_index'.
           merge_ids lists_index listkit_index =
             Inr (lists_index', JArr (map JStr (A @ first_occurrences (filter (\<lambda>b. b \<notin> set A) B))))
         \<and> py_get lists_index' ''includedArchiveIdentifiers'' (JArr []) =
             Inr (JArr (map JStr (A @ first_occurrences (filter (\<lambda>b. b \<notin> set A) B))))
         \<and> (distinct A \<longrightarrow> distinct (A @ first_occurrences (filter (\<lambda>b. b \<notin> set A) B)))
         \<and> (distinct B \<longrightarrow>
              first_occurrences (filter (\<lambda>b. b \<notin> set A) B) = filter (\<lambda>b. b \<notin> set A) B)"
proof -
  from merge_ids_strings [OF assms] obtain p where
    "merge_ids lists_index listkit_index =
       Inr (JObj (dict_set ''includedArchiveIdentifiers''
              (JArr (map JStr (A @ first_occurrences (filter (\<lambda>b. b \<notin> set A) B)))) p),
            JArr (map JStr (A @ first_occurrences (filter (\<lambda>b. b \<notin> set A) B))))"
    by blast
  moreover have "distinct A \<longrightarrow> distinct (A @ first_occurrences (filter (\<lambda>b. b \<notin> set A) B))"
    by (auto simp: distinct_first_occurrences set_first_occurrences)
  moreover have "distinct B \<longrightarrow>
      first_occurrences (filter (\<lambda>b. b \<notin> set A) B) = filter (\<lambda>b. b \<notin> set A) B"
    by (simp add: first_occurrences_distinct)
  ultimately show ?thesis
    by (intro exI [of _ "JObj (dict_set ''includedArchiveIdentifiers''
              (JArr (map JStr (A @ first_occurrences (filter (\<lambda>b. b \<notin> set A) B)))) p)"])
       (simp add: map_of_dict_set)
qed

theorem merge_ids_first_seen_witness:
  "py_get (JObj [(''includedArchiveIdentifiers'', JArr [JStr ''com.listkit.Lists''])])
       ''includedArchiveIdentifiers'' (JArr []) = Inr (JArr (map JStr [''com.listkit.Lists'']))
   \<and> py_get (JObj [(''includedArchiveIdentifiers'',
                  JArr [JStr ''com.listkit.ListKit'', JStr ''com.listkit.Lists'',
                        JStr ''com.listkit.ListKit''])])
       ''includedArchiveIdentifiers'' (JArr []) =
         Inr (JArr (map JStr [''com.listkit.ListKit'', ''com.listkit.Lists'', ''com.listkit.ListKit'']))
   \<and> distinct [''com.listkit.Lists'']
   \<and> (\<exists>lists_index'.
         merge_ids (JObj [(''includedArchiveIdentifiers'', JArr [JStr ''com.listkit.Lists''])])
                   (JObj [(''includedArchiveIdentifiers'',
                           JArr [JStr ''com.listkit.ListKit'', JStr ''com.listkit.Lists'',
                                 JStr ''com.listkit.ListKit''])])
           = Inr (lists_index', JArr [JStr ''com.listkit.Lists'', JStr ''com.listkit.ListKit''])
       \<and> py_get lists_index' ''includedArchiveIdentifiers'' (JArr []) =
             Inr (JArr [JStr ''com.listkit.Lists'', JStr ''com.listkit.ListKit'']))
   \<and> distinct [''com.listkit.Lists'', ''com.listkit.ListKit'']"
proof -
  have 1: "py_get (JObj [(''includedArchiveIdentifiers'', JArr [JStr ''com.listkit.Lists''])])
       ''includedArchiveIdentifiers'' (JArr []) = Inr (JArr (map JStr [''com.listkit.Lists'']))"
    by simp
  have 2: "py_get (JObj [(''includedArchiveIdentifiers'',
                  JArr [JStr ''com.listkit.ListKit'', JStr ''com.listkit.Lists'',
                        JStr ''com.listkit.ListKit''])])
       ''includedArchiveIdentifiers'' (JArr []) =
         Inr (JArr (map JStr [''com.listkit.ListKit'', ''com.listkit.Lists'', ''com.listkit.ListKit'']))"
    by simp
  show ?thesis using 1 2 merge_ids_first_seen [OF 1 2] by simp
qed

text \<open>
  Claim C1 as it is worded promises that no element appears twice in the merged list for
  any two lists. The loop never removes anything from the primary list: an identifier
  that the primary index holds twice is still there twice after the merge.
\<close>

theorem merged_ids_repeat_counterexample:
  "merge_ids (JObj [(''includedArchiveIdentifiers'',
                     JArr [JStr ''com.listkit.Lists'', JStr ''com.listkit.Lists''])])
             (JObj [(''includedArchiveIdentifiers'', JArr [JStr ''com.listkit.ListKit''])])
     = Inr (JObj [(''includedArchiveIdentifiers'',
                   JArr [JStr ''com.listkit.Lists'', JStr ''com.listkit.Lists'',
                         JStr ''com.listkit.ListKit''])],
            JArr [JStr ''com.listkit.Lists'', JStr ''com.listkit.Lists'',
                  JStr ''com.listkit.ListKit''])
   \<and> \<not> distinct [JStr ''com.listkit.Lists'', JStr ''com.listkit.Lists'',
                  JStr ''com.listkit.ListKit'']"
  by (simp add: merge_ids_def py_eq_JStr)

text \<open>
  Claim C6: merging the same secondary index a second time into the merged primary
  index returns the same identifier list, and the same primary index, as the first
  merge did.
\<close>

theorem merge_ids_twice:
  assumes "py_get lists_index ''includedArchiveIdentifiers'' (JArr []) = Inr (JArr (map JStr A))"
    and "py_get listkit_index ''includedArchiveIdentifiers'' (JArr []) = Inr (JArr (map JStr B))"
  shows "\<exists>lists_index' ids.
           merge_ids lists_index listkit_index = Inr (lists_index', ids)
         \<and> merge_ids lists_index' listkit_index = Inr (lists_index', ids)"
proof -
  let ?M = "A @ first_occurrences (filter (\<lambda>b. b \<notin> set A) B)"
  from merge_ids_strings [OF assms] obtain p where
    1: "merge_ids lists_index listkit_index =
       Inr (JObj (dict_set ''includedArchiveIdentifiers'' (JArr (map JStr ?M)) p),
            JArr (map JStr ?M))"
    by blast
  have "py_get (JObj (dict_set ''includedArchiveIdentifiers'' (JArr (map JStr ?M)) p))
           ''includedArchiveIdentifiers'' (JArr []) = Inr (JArr (map JStr ?M))"
    by (rule py_get_dict_set_same)
  from merge_ids_lists [OF this assms(2) add_ids_again]
  have "merge_ids (JObj (dict_set ''includedArchiveIdentifiers'' (JArr (map JStr ?M)) p)) listkit_index =
       Inr (JObj (dict_set ''includedArchiveIdentifiers'' (JArr (map JStr ?M)) p),
            JArr (map JStr ?M))"
    by (simp add: dict_set_twice)
  with 1 show ?thesis by blast
qed

theorem merge_ids_twice_witness:
  "py_get (JObj []) ''includedArchiveIdentifiers'' (JArr []) = Inr (JArr (map JStr []))
   \<and> py_get (JObj [(''includedArchiveIdentifiers'', JArr [JStr ''b'', JStr ''b''])])
         ''includedArchiveIdentifiers'' (JArr []) = Inr (JArr (map JStr [''b'', ''b'']))
   \<and> (\<exists>lists_index' ids.
         merge_ids (JObj []) (JObj [(''includedArchiveIdentifiers'', JArr [JStr ''b'', JStr ''b''])])
           = Inr (lists_index', ids)
       \<and> merge_ids lists_index' (JObj [(''includedArchiveIdentifiers'', JArr [JStr ''b'', JStr ''b''])])
           = Inr (lists_index', ids))"
proof -
  have 1: "py_get (JObj []) ''includedArchiveIdentifiers'' (JArr []) = Inr (JArr (map JStr []))"
    by simp
  have 2: "py_get (JObj [(''includedArchiveIdentifiers'', JArr [JStr ''b'', JStr ''b''])])
         ''includedArchiveIdentifiers'' (JArr []) = Inr (JArr (map JStr [''b'', ''b'']))"
    by simp
  show ?thesis using 1 2 merge_ids_twice [OF 1 2] by simp
qed

section \<open>The navigation tree\<close>

text \<open>
  Claim C2. Both identifier fields are lists (or absent), the sequence under
  \<^verbatim>\<open>"swift"\<close> is non-empty in both indexes, and the children of the root node (the
  first element of the primary's sequence), or the empty list when the root has no
  \<^verbatim>\<open>children\<close>, are \<open>cs\<close>. Then the merge raises nothing, the primary's sequence
  after the merge still has the same other elements, and the children of its first
  element are \<open>cs\<close> followed by the whole top-level sequence of the secondary index.
\<close>

theorem merge_index_appends_to_root:
  assumes "py_get lists_index ''includedArchiveIdentifiers'' (JArr []) = Inr (JArr A)"
    and "py_get listkit_index ''includedArchiveIdentifiers'' (JArr []) = Inr (JArr B)"
    and "swift_items lists_index = Inr (JArr (root_node # others))"
    and "swift_items listkit_index = Inr (JArr (y # ys))"
    and "py_get root_node ''children'' (JArr []) = Inr (JArr cs)"
  shows "\<exists>lists_index' ids root'.
           merge_index lists_index listkit_index = Inr (lists_index', JArr (y # ys), ids)
         \<and> swift_items lists_index' = Inr (JArr (root' # others))
         \<and> py_get root' ''children'' (JArr []) = Inr (JArr (cs @ y # ys))"
proof -
  from merge_ids_any_lists [OF assms(1,2)] obtain p M where
    "lists_index = JObj p"
    "merge_ids lists_index listkit_index =
       Inr (JObj (dict_set ''includedArchiveIdentifiers'' (JArr (A @ M)) p), JArr (A @ M))"
    by blast
  from merge_index_append [OF this(2,1) assms(3,4,5)] show ?thesis by blast
qed

theorem merge_index_appends_to_root_witness:
  "py_get example_primary
       ''includedArchiveIdentifiers'' (JArr []) = Inr (JArr [JStr ''com.listkit.Lists''])
   \<and> py_get example_secondary
       ''includedArchiveIdentifiers'' (JArr []) = Inr (JArr [JStr ''com.listkit.ListKit''])
   \<and> swift_items example_primary
       = Inr (JArr (example_root # []))
   \<and> swift_items example_secondary
       = Inr (JArr (node ''Y'' # [node ''Z'']))
   \<and> py_get (example_root) ''children'' (JArr [])
       = Inr (JArr [node ''X''])
   \<and> (\<exists>lists_index' ids root'.
         merge_index example_primary
           example_secondary
           = Inr (lists_index', JArr [node ''Y'', node ''Z''], ids)
       \<and> swift_items lists_index' = Inr (JArr [root'])
       \<and> py_get root' ''children'' (JArr []) =
             Inr (JArr [node ''X'', node ''Y'', node ''Z'']))"
proof -
  have 1: "py_get example_primary
       ''includedArchiveIdentifiers'' (JArr []) = Inr (JArr [JStr ''com.listkit.Lists''])"
    by (simp add: swift_items_def)
  have 2: "py_get example_secondary
       ''includedArchiveIdentifiers'' (JArr []) = Inr (JArr [JStr ''com.listkit.ListKit''])"
    by (simp add: swift_items_def)
  have 3: "swift_items example_primary
       = Inr (JArr (example_root # []))"
    by (simp add: swift_items_def)
  have 4: "swift_items example_secondary
       = Inr (JArr (node ''Y'' # [node ''Z'']))"
    by (simp add: swift_items_def)
  have 5: "py_get (example_root) ''children'' (JArr [])
       = Inr (JArr [node ''X''])"
    by (simp add: swift_items_def)
  show ?thesis using 1 2 3 4 5 merge_index_appends_to_root [OF 1 2 3 4 5] by simp
qed

text \<open>
  Claim C4. When the sequence under \<^verbatim>\<open>"swift"\<close> of the primary or of the secondary
  index is empty or absent (\<open>swift_items\<close> is then the empty list), the merge raises
  nothing and its result is the primary index with nothing but the identifier list
  set: what is stored under \<^verbatim>\<open>interfaceLanguages\<close> (or its absence) is as before.
\<close>

theorem empty_language_leaves_tree:
  assumes "py_get (JObj p) ''includedArchiveIdentifiers'' (JArr []) = Inr (JArr A)"
    and "py_get listkit_index ''includedArchiveIdentifiers'' (JArr []) = Inr (JArr B)"
    and "swift_items (JObj p) = Inr lists_items"
    and "swift_items listkit_index = Inr listkit_items"
    and "lists_items = JArr [] \<or> listkit_items = JArr []"
  shows "\<exists>ids.
           merge_index (JObj p) listkit_index =
             Inr (JObj (dict_set ''includedArchiveIdentifiers'' ids p), listkit_items, ids)
         \<and> map_of (dict_set ''includedArchiveIdentifiers'' ids p) ''interfaceLanguages''
             = map_of p ''interfaceLanguages''"
proof -
  from merge_ids_any_lists [OF assms(1,2)] obtain M where
    ids: "merge_ids (JObj p) listkit_index =
       Inr (JObj (dict_set ''includedArchiveIdentifiers'' (JArr (A @ M)) p), JArr (A @ M))"
    by blast
  let ?p1 = "JObj (dict_set ''includedArchiveIdentifiers'' (JArr (A @ M)) p)"
  have items: "swift_items ?p1 = Inr lists_items"
    using assms(3) by (simp add: swift_items_dict_set_ids)
  have "\<not> (py_truthy lists_items \<and> py_truthy listkit_items)"
    using assms(5) by auto
  with items assms(4) have "merge_tree ?p1 listkit_index = Inr (?p1, listkit_items)"
    by (rule merge_tree_skip)
  with ids have "merge_index (JObj p) listkit_index = Inr (?p1, listkit_items, JArr (A @ M))"
    by (simp add: merge_index_def)
  then show ?thesis by (auto simp: map_of_dict_set)
qed

theorem empty_language_leaves_tree_witness:
  "py_get (JObj [(''includedArchiveIdentifiers'', JArr [JStr ''com.listkit.Lists''])])
       ''includedArchiveIdentifiers'' (JArr []) = Inr (JArr [JStr ''com.listkit.Lists''])
   \<and> py_get example_secondary
       ''includedArchiveIdentifiers'' (JArr []) = Inr (JArr [JStr ''com.listkit.ListKit''])
   \<and> swift_items (JObj [(''includedArchiveIdentifiers'', JArr [JStr ''com.listkit.Lists''])]) = Inr (JArr [])
   \<and> swift_items example_secondary
       = Inr (JArr [node ''Y'', node ''Z''])
   \<and> (JArr [] = JArr [] \<or> JArr [node ''Y'', node ''Z''] = JArr [])
   \<and> (\<exists>ids.
         merge_index (JObj [(''includedArchiveIdentifiers'', JArr [JStr ''com.listkit.Lists''])])
           example_secondary
           = Inr (JObj (dict_set ''includedArchiveIdentifiers'' ids [(''includedArchiveIdentifiers'', JArr [JStr ''com.listkit.Lists''])]),
                  JArr [node ''Y'', node ''Z''], ids)
       \<and> map_of (dict_set ''includedArchiveIdentifiers'' ids [(''includedArchiveIdentifiers'', JArr [JStr ''com.listkit.Lists''])]) ''interfaceLanguages'' = None)"
proof -
  have 1: "py_get (JObj [(''includedArchiveIdentifiers'', JArr [JStr ''com.listkit.Lists''])])
       ''includedArchiveIdentifiers'' (JArr []) = Inr (JArr [JStr ''com.listkit.Lists''])"
    by (simp add: swift_items_def)
  have 2: "py_get example_secondary
       ''includedArchiveIdentifiers'' (JArr []) = Inr (JArr [JStr ''com.listkit.ListKit''])"
    by (simp add: swift_items_def)
  have 3: "swift_items (JObj [(''includedArchiveIdentifiers'', JArr [JStr ''com.listkit.Lists''])]) = Inr (JArr [])"
    by (simp add: swift_items_def)
  have 4: "swift_items example_secondary
       = Inr (JArr [node ''Y'', node ''Z''])"
    by (simp add: swift_items_def)
  have 5: "(JArr [] = JArr [] \<or> JArr [node ''Y'', node ''Z''] = JArr [])"
    by (simp add: swift_items_def)
  show ?thesis using 1 2 3 4 5 empty_language_leaves_tree [OF 1 2 3 4 5] by simp
qed

text \<open>
  Claim C5. A second merge of the same secondary index into the merged primary index
  appends the secondary's top-level nodes to the root's children once more, and leaves
  the identifier list as the first merge made it.
\<close>

theorem second_merge_duplicates_tree:
  assumes "py_get lists_index ''includedArchiveIdentifiers'' (JArr []) = Inr (JArr (map JStr A))"
    and "py_get listkit_index ''includedArchiveIdentifiers'' (JArr []) = Inr (JArr (map JStr B))"
    and "swift_items lists_index = Inr (JArr (root_node # others))"
    and "swift_items listkit_index = Inr (JArr (y # ys))"
    and "py_get root_node ''children'' (JArr []) = Inr (JArr cs)"
  shows "\<exists>merged merged2 ids root2.
           merge_index lists_index listkit_index = Inr (merged, JArr (y # ys), ids)
         \<and> merge_index merged listkit_index = Inr (merged2, JArr (y # ys), ids)
         \<and> swift_items merged2 = Inr (JArr (root2 # others))
         \<and> py_get root2 ''children'' (JArr []) = Inr (JArr (cs @ (y # ys) @ (y # ys)))
         \<and> py_get merged ''includedArchiveIdentifiers'' (JArr []) = Inr ids
         \<and> py_get merged2 ''includedArchiveIdentifiers'' (JArr []) = Inr ids"
proof -
  let ?M = "A @ first_occurrences (filter (\<lambda>b. b \<notin> set A) B)"
  let ?ids = "JArr (map JStr ?M)"
  from merge_ids_strings [OF assms(1,2)] obtain p where
    p: "lists_index = JObj p" and
    ids: "merge_ids lists_index listkit_index =
            Inr (JObj (dict_set ''includedArchiveIdentifiers'' ?ids p), ?ids)"
    by blast
  from merge_index_append [OF ids p assms(3,4,5)] obtain merged root1 where
    m1: "merge_index lists_index listkit_index = Inr (merged, JArr (y # ys), ?ids)" and
    s1: "swift_items merged = Inr (JArr (root1 # others))" and
    c1: "py_get root1 ''children'' (JArr []) = Inr (JArr (cs @ y # ys))" and
    i1: "py_get merged ''includedArchiveIdentifiers'' (JArr []) = Inr ?ids"
    by blast
  from py_get_InrD [OF i1] obtain q where q: "merged = JObj q" by blast
  have ids2: "merge_ids merged listkit_index =
            Inr (JObj (dict_set ''includedArchiveIdentifiers'' ?ids q), ?ids)"
    using merge_ids_lists [OF i1 [unfolded q] assms(2) add_ids_again] q by simp
  from merge_index_append [OF ids2 q s1 assms(4) c1] obtain merged2 root2 where
    "merge_index merged listkit_index = Inr (merged2, JArr (y # ys), ?ids)"
    "swift_items merged2 = Inr (JArr (root2 # others))"
    "py_get root2 ''children'' (JArr []) = Inr (JArr ((cs @ y # ys) @ y # ys))"
    "py_get merged2 ''includedArchiveIdentifiers'' (JArr []) = Inr ?ids"
    by blast
  with m1 i1 show ?thesis by auto
qed

theorem second_merge_duplicates_tree_witness:
  "py_get example_primary
       ''includedArchiveIdentifiers'' (JArr []) = Inr (JArr (map JStr [''com.listkit.Lists'']))
   \<and> py_get example_secondary
       ''includedArchiveIdentifiers'' (JArr []) = Inr (JArr (map JStr [''com.listkit.ListKit'']))
   \<and> swift_items example_primary
       = Inr (JArr (example_root # []))
   \<and> swift_items example_secondary
       = Inr (JArr (node ''Y'' # [node ''Z'']))
   \<and> py_get (example_root) ''children'' (JArr [])
       = Inr (JArr [node ''X''])
   \<and> (\<exists>merged merged2 ids root2.
         merge_index example_primary
           example_secondary
           = Inr (merged, JArr [node ''Y'', node ''Z''], ids)
       \<and> merge_index merged
           example_secondary
           = Inr (merged2, JArr [node ''Y'', node ''Z''], ids)
       \<and> swift_items merged2 = Inr (JArr [root2])
       \<and> py_get root2 ''children'' (JArr []) =
             Inr (JArr [node ''X'', node ''Y'', node ''Z'', node ''Y'', node ''Z''])
       \<and> py_get merged ''includedArchiveIdentifiers'' (JArr []) = Inr ids
       \<and> py_get merged2 ''includedArchiveIdentifiers'' (JArr []) = Inr ids)"
proof -
  have 1: "py_get example_primary
       ''includedArchiveIdentifiers'' (JArr []) = Inr (JArr (map JStr [''com.listkit.Lists'']))"
    by (simp add: swift_items_def)
  have 2: "py_get example_secondary
       ''includedArchiveIdentifiers'' (JArr []) = Inr (JArr (map JStr [''com.listkit.ListKit'']))"
    by (simp add: swift_items_def)
  have 3: "swift_items example_primary
       = Inr (JArr (example_root # []))"
    by (simp add: swift_items_def)
  have 4: "swift_items example_secondary
       = Inr (JArr (node ''Y'' # [node ''Z'']))"
    by (simp add: swift_items_def)
  have 5: "py_get (example_root) ''children'' (JArr [])
       = Inr (JArr [node ''X''])"
    by (simp add: swift_items_def)
  show ?thesis using 1 2 3 4 5 second_merge_duplicates_tree [OF 1 2 3 4 5] by simp
qed

section \<open>Absent fields\<close>

text \<open>
  Claim C7. Both documents have the shape of a Navigation Index Document, with any of
  the optional fields absent. Then the merge raises nothing. When the primary index has
  no \<^verbatim>\<open>includedArchiveIdentifiers\<close>, the merged list is what appending the secondary's
  identifiers \<open>B\<close> to the empty list gives; when the secondary index has none, the
  merged list is the primary's (the empty list when that is absent too); and when
  either index lacks its language entry, the merged index is the primary index with
  nothing but the identifier list set.
\<close>

theorem absent_fields_take_defaults:
  assumes "index_shape (JObj p)" and "index_shape (JObj s)"
  shows "\<exists>lists_index' items ids.
           merge_index (JObj p) (JObj s) = Inr (lists_index', JArr items, ids)
         \<and> (map_of p ''includedArchiveIdentifiers'' = None \<and>
              py_get (JObj s) ''includedArchiveIdentifiers'' (JArr []) = Inr (JArr (map JStr B))
              \<longrightarrow> ids = JArr (map JStr (first_occurrences B)))
         \<and> (map_of s ''includedArchiveIdentifiers'' = None
              \<longrightarrow> py_get (JObj p) ''includedArchiveIdentifiers'' (JArr []) = Inr ids)
         \<and> (lacks_swift (JObj p) \<or> lacks_swift (JObj s)
              \<longrightarrow> lists_index' = JObj (dict_set ''includedArchiveIdentifiers'' ids p))"
proof -
  from index_shape_idsD [OF assms(1)] obtain A where
    A: "py_get (JObj p) ''includedArchiveIdentifiers'' (JArr []) = Inr (JArr (map JStr A))"
    by blast
  from index_shape_idsD [OF assms(2)] obtain B' where
    B': "py_get (JObj s) ''includedArchiveIdentifiers'' (JArr []) = Inr (JArr (map JStr B'))"
    by blast
  let ?ids = "JArr (map JStr (A @ first_occurrences (filter (\<lambda>b. b \<notin> set A) B')))"
  from merge_index_shape [OF assms A B'] obtain lists_index' items where
    m: "merge_index (JObj p) (JObj s) = Inr (lists_index', JArr items, ?ids)" and
    t: "swift_items (JObj p) = Inr (JArr []) \<or> swift_items (JObj s) = Inr (JArr []) \<longrightarrow>
          lists_index' = JObj (dict_set ''includedArchiveIdentifiers'' ?ids p)"
    by blast
  have a: "map_of p ''includedArchiveIdentifiers'' = None \<and>
        py_get (JObj s) ''includedArchiveIdentifiers'' (JArr []) = Inr (JArr (map JStr B))
        \<longrightarrow> ?ids = JArr (map JStr (first_occurrences B))"
  proof
    assume h: "map_of p ''includedArchiveIdentifiers'' = None \<and>
        py_get (JObj s) ''includedArchiveIdentifiers'' (JArr []) = Inr (JArr (map JStr B))"
    with A have "A = []" by simp
    moreover from h B' have "map JStr B' = map JStr B" by simp
    then have "B' = B" by (simp add: inj_on_def)
    ultimately show "?ids = JArr (map JStr (first_occurrences B))" by simp
  qed
  have b: "map_of s ''includedArchiveIdentifiers'' = None
        \<longrightarrow> py_get (JObj p) ''includedArchiveIdentifiers'' (JArr []) = Inr ?ids"
  proof
    assume "map_of s ''includedArchiveIdentifiers'' = None"
    with B' have "B' = []" by simp
    with A show "py_get (JObj p) ''includedArchiveIdentifiers'' (JArr []) = Inr ?ids" by simp
  qed
  have c: "lacks_swift (JObj p) \<or> lacks_swift (JObj s)
        \<longrightarrow> lists_index' = JObj (dict_set ''includedArchiveIdentifiers'' ?ids p)"
    using t lacks_swift_items by blast
  show ?thesis
    by (rule exI [of _ lists_index'], rule exI [of _ items], rule exI [of _ ?ids])
       (intro conjI m a b c)
qed

theorem absent_fields_take_defaults_witness:
  "index_shape (JObj [])
   \<and> index_shape (JObj [(''includedArchiveIdentifiers'', JArr [JStr ''com.listkit.ListKit''])])
   \<and> map_of [] ''includedArchiveIdentifiers'' = (None :: json option)
   \<and> py_get (JObj [(''includedArchiveIdentifiers'', JArr [JStr ''com.listkit.ListKit''])]) ''includedArchiveIdentifiers'' (JArr []) =
         Inr (JArr (map JStr [''com.listkit.ListKit'']))
   \<and> lacks_swift (JObj [])
   \<and> (\<exists>lists_index' items ids.
         merge_index (JObj []) (JObj [(''includedArchiveIdentifiers'', JArr [JStr ''com.listkit.ListKit''])]) = Inr (lists_index', JArr items, ids)
       \<and> ids = JArr [JStr ''com.listkit.ListKit'']
       \<and> lists_index' = JObj [(''includedArchiveIdentifiers'', JArr [JStr ''com.listkit.ListKit''])])"
proof -
  have 1: "index_shape (JObj [])"
    by simp
  have 2: "index_shape (JObj [(''includedArchiveIdentifiers'', JArr [JStr ''com.listkit.ListKit''])])"
    by simp
  from absent_fields_take_defaults [OF 1 2, of "[''com.listkit.ListKit'']"]
  obtain lists_index' items ids where
    "merge_index (JObj []) (JObj [(''includedArchiveIdentifiers'', JArr [JStr ''com.listkit.ListKit''])]) = Inr (lists_index', JArr items, ids)"
    "ids = JArr [JStr ''com.listkit.ListKit'']"
    "lists_index' = JObj (dict_set ''includedArchiveIdentifiers'' ids [])"
    by auto
  then show ?thesis by simp
qed

section \<open>The run of the program\<close>

text \<open>
  Claim C8. When the number of positional arguments is not two, the program prints the
  usage line on standard output and exits with code 1, and it has opened no file and
  changed none. With two arguments, two files that parse and documents of the shape of
  a Navigation Index Document, it exits with code 0.
\<close>

theorem usage_or_exit_zero:
  "(length args \<noteq> 2
    \<longrightarrow> stdout (fst (main loads dumps prog args w)) = stdout w @ [Usage prog]
      \<and> opened (fst (main loads dumps prog args w)) = opened w
      \<and> files (fst (main loads dumps prog args w)) = files w
      \<and> snd (main loads dumps prog args w) = Exit 1)
   \<and> (files w (d @ ''/index/index.json'') = Some text_p \<and> loads text_p = Some (JObj p) \<and>
      files w (a @ ''/index/index.json'') = Some text_s \<and> loads text_s = Some (JObj s) \<and>
      index_shape (JObj p) \<and> index_shape (JObj s)
    \<longrightarrow> snd (main loads dumps prog [a, d] w) = Exit 0)"
proof (intro conjI impI)
  assume "files w (d @ ''/index/index.json'') = Some text_p \<and> loads text_p = Some (JObj p) \<and>
      files w (a @ ''/index/index.json'') = Some text_s \<and> loads text_s = Some (JObj s) \<and>
      index_shape (JObj p) \<and> index_shape (JObj s)"
  then have f: "files w (d @ ''/index/index.json'') = Some text_p" "loads text_p = Some (JObj p)"
      "files w (a @ ''/index/index.json'') = Some text_s" "loads text_s = Some (JObj s)"
    and sh: "index_shape (JObj p)" "index_shape (JObj s)" by simp_all
  from index_shape_idsD [OF sh(1)] index_shape_idsD [OF sh(2)] obtain A B where
    "py_get (JObj p) ''includedArchiveIdentifiers'' (JArr []) = Inr (JArr (map JStr A))"
    "py_get (JObj s) ''includedArchiveIdentifiers'' (JArr []) = Inr (JArr (map JStr B))"
    by blast
  from merge_index_shape [OF sh this] obtain merged items ids where
    m: "merge_index (JObj p) (JObj s) = Inr (merged, JArr items, ids)" by blast
  show "snd (main loads dumps prog [a, d] w) = Exit 0"
    unfolding main_merged [OF read_json_Inr [where loads = loads, OF f(1,2)] read_json_Inr [where loads = loads, OF f(3,4)] m]
    by simp
qed (simp_all add: main_usage)

theorem usage_or_exit_zero_witness:
  "length [''ListKit.doccarchive''] \<noteq> 2
   \<and> stdout (fst (main (map_of [(''{}'', JObj [])]) (\<lambda>j. ''merged'') ''merge-docs-index.py''
      [''ListKit.doccarchive'']
      (example_world ''{}'' ''{}'')))
       = [Usage ''merge-docs-index.py'']
   \<and> opened (fst (main (map_of [(''{}'', JObj [])]) (\<lambda>j. ''merged'') ''merge-docs-index.py''
      [''ListKit.doccarchive'']
      (example_world ''{}'' ''{}''))) = []
   \<and> snd (main (map_of [(''{}'', JObj [])]) (\<lambda>j. ''merged'') ''merge-docs-index.py''
      [''ListKit.doccarchive'']
      (example_world ''{}'' ''{}'')) = Exit 1
   \<and> index_shape (JObj [])
   \<and> snd (main (map_of [(''{}'', JObj [])]) (\<lambda>j. ''merged'') ''merge-docs-index.py''
      [''ListKit.doccarchive'', ''docs'']
      (example_world ''{}'' ''{}'')) = Exit 0"
proof -
  have 1: "files (example_world ''{}'' ''{}'') (''docs'' @ ''/index/index.json'') = Some ''{}''"
    by simp
  have 2: "(map_of [(''{}'', JObj [])]) ''{}'' = Some (JObj [])"
    by simp
  have 3: "files (example_world ''{}'' ''{}'') (''ListKit.doccarchive'' @ ''/index/index.json'') = Some ''{}''"
    by simp
  have 4: "index_shape (JObj [])"
    by simp
  show ?thesis
    using 1 2 3 4
      usage_or_exit_zero
        [where loads = "(map_of [(''{}'', JObj [])])" and dumps = "(\<lambda>j. ''merged'')" and prog = "''merge-docs-index.py''"
           and args = "[''ListKit.doccarchive'']" and a = "''ListKit.doccarchive''"
           and d = "''docs''" and text_p = "''{}''" and text_s = "''{}''" and p = "[]" and s = "[]"
           and w = "(example_world ''{}'' ''{}'')"]
    by simp
qed

text \<open>
  Claim C3. When reading or parsing the primary or the secondary file fails, the run
  ends with the exception uncaught, it has opened files for reading only, and every
  file is as it was before. And whenever a run with two arguments has changed a file
  or opened one for writing, both files were read and parsed and the merge in memory
  returned a result.
\<close>

theorem failed_read_writes_nothing:
  "(snd (read_json loads (d @ ''/index/index.json'') w) = Inl e \<or>
    snd (read_json loads (a @ ''/index/index.json'') w) = Inl e
    \<longrightarrow> files (fst (main loads dumps prog [a, d] w)) = files w
      \<and> (\<exists>paths. opened (fst (main loads dumps prog [a, d] w)) = opened w @ map OpenRead paths)
      \<and> (\<exists>e'. snd (main loads dumps prog [a, d] w) = Uncaught e'))
   \<and> (files (fst (main loads dumps prog [a, d] w)) \<noteq> files w \<or>
      OpenWrite q \<in> set (opened (fst (main loads dumps prog [a, d] w))) - set (opened w)
    \<longrightarrow> (\<exists>P S merged items ids.
          snd (read_json loads (d @ ''/index/index.json'') w) = Inr P
        \<and> snd (read_json loads (a @ ''/index/index.json'') w) = Inr S
        \<and> merge_index P S = Inr (merged, items, ids)))"
proof (cases "snd (read_json loads (d @ ''/index/index.json'') w)")
  case (Inl e1)
  have "[OpenRead (d @ ''/index/index.json'')] = map OpenRead [d @ ''/index/index.json'']"
    by simp
  then show ?thesis
    unfolding main_first_read_fails [OF Inl] by (auto simp del: list.map)
next
  case P: (Inr P)
  show ?thesis
  proof (cases "snd (read_json loads (a @ ''/index/index.json'') w)")
    case (Inl e2)
    have "[OpenRead (d @ ''/index/index.json''), OpenRead (a @ ''/index/index.json'')]
            = map OpenRead [d @ ''/index/index.json'', a @ ''/index/index.json'']"
      by simp
    then show ?thesis
      unfolding main_second_read_fails [OF P Inl] by (auto simp del: list.map)
  next
    case S: (Inr S)
    show ?thesis
    proof (cases "merge_index P S")
      case (Inl e3)
      show ?thesis
        unfolding main_merge_fails [OF P S Inl] using P S by auto
    next
      case (Inr res)
      then show ?thesis using P S by (cases res) auto
    qed
  qed
qed

theorem failed_read_writes_nothing_witness:
  "snd (read_json (map_of [(''{}'', JObj [])]) (''ListKit.doccarchive'' @ ''/index/index.json'')
     (example_world ''{}'' ''{'')) = Inl JSONDecodeError
   \<and> files (fst (main (map_of [(''{}'', JObj [])]) (\<lambda>j. ''merged'') ''merge-docs-index.py''
      [''ListKit.doccarchive'', ''docs'']
      (example_world ''{}'' ''{'')))
       = [''docs/index/index.json'' \<mapsto> ''{}'',
          ''ListKit.doccarchive/index/index.json'' \<mapsto> ''{'']
   \<and> (\<exists>paths. opened (fst (main (map_of [(''{}'', JObj [])]) (\<lambda>j. ''merged'') ''merge-docs-index.py''
      [''ListKit.doccarchive'', ''docs'']
      (example_world ''{}'' ''{'')))
         = map OpenRead paths)
   \<and> (\<exists>e'. snd (main (map_of [(''{}'', JObj [])]) (\<lambda>j. ''merged'') ''merge-docs-index.py''
      [''ListKit.doccarchive'', ''docs'']
      (example_world ''{}'' ''{'')) = Uncaught e')
   \<and> OpenWrite ''docs/index/index.json''
       \<in> set (opened (fst (main (map_of [(''{}'', JObj [])]) (\<lambda>j. ''merged'') ''merge-docs-index.py''
      [''ListKit.doccarchive'', ''docs'']
      (example_world ''{}'' ''{}''))))
   \<and> (\<exists>P S merged items ids.
         snd (read_json (map_of [(''{}'', JObj [])]) (''docs'' @ ''/index/index.json'')
           (example_world ''{}'' ''{}'')) = Inr P
       \<and> snd (read_json (map_of [(''{}'', JObj [])]) (''ListKit.doccarchive'' @ ''/index/index.json'')
           (example_world ''{}'' ''{}'')) = Inr S
       \<and> merge_index P S = Inr (merged, items, ids))"
proof -
  have 1: "snd (read_json (map_of [(''{}'', JObj [])]) (''ListKit.doccarchive'' @ ''/index/index.json'')
     (example_world ''{}'' ''{'')) = Inl JSONDecodeError"
    by (simp add: read_json_def)
  have 2: "OpenWrite ''docs/index/index.json''
       \<in> set (opened (fst (main (map_of [(''{}'', JObj [])]) (\<lambda>j. ''merged'') ''merge-docs-index.py''
      [''ListKit.doccarchive'', ''docs'']
      (example_world ''{}'' ''{}''))))"
    by (simp add: main_def read_json_def write_json_def merge_index_def merge_ids_def merge_tree_def swift_items_def Let_def)
  show ?thesis
    using 1 2
      failed_read_writes_nothing
        [where loads = "(map_of [(''{}'', JObj [])])" and dumps = "(\<lambda>j. ''merged'')"
           and prog = "''merge-docs-index.py''" and a = "''ListKit.doccarchive''" and d = "''docs''"
           and e = JSONDecodeError and q = "''docs/index/index.json''"
           and w = "(example_world ''{}'' ''{'')"]
      failed_read_writes_nothing
        [where loads = "(map_of [(''{}'', JObj [])])" and dumps = "(\<lambda>j. ''merged'')"
           and prog = "''merge-docs-index.py''" and a = "''ListKit.doccarchive''" and d = "''docs''"
           and e = JSONDecodeError and q = "''docs/index/index.json''"
           and w = "(example_world ''{}'' ''{}'')"]
    by simp
qed

text \<open>
  Claim C10. Both files parse to dictionaries and the merge in memory returns a result.
  Then the document written to the primary path is a dictionary that has the key
  \<^verbatim>\<open>includedArchiveIdentifiers\<close> with the merged list as its value. Its keys are
  those of the primary index in their order, with \<^verbatim>\<open>includedArchiveIdentifiers\<close> at
  the end when the primary index did not have it, and every value other than those of
  \<^verbatim>\<open>includedArchiveIdentifiers\<close> and \<^verbatim>\<open>interfaceLanguages\<close> is the primary's. For
  identifier lists \<open>A\<close> and \<open>B\<close> of strings (the empty list for an absent key) the
  merged list is \<open>A\<close> followed by the first occurrences of the elements of \<open>B\<close> not
  in \<open>A\<close>; when neither input has the key, it is the empty list.
\<close>

theorem written_index_has_identifiers:
  assumes "files w (d @ ''/index/index.json'') = Some text_p" and "loads text_p = Some (JObj p)"
    and "files w (a @ ''/index/index.json'') = Some text_s" and "loads text_s = Some (JObj s)"
    and "merge_index (JObj p) (JObj s) = Inr (merged, items, ids)"
  shows "\<exists>kvs. merged = JObj kvs
         \<and> files (fst (main loads dumps prog [a, d] w)) (d @ ''/index/index.json'')
             = Some (dumps (JObj kvs))
         \<and> map_of kvs ''includedArchiveIdentifiers'' = Some ids
         \<and> map fst kvs = map fst (dict_set ''includedArchiveIdentifiers'' ids p)
         \<and> (\<forall>k. k \<noteq> ''interfaceLanguages'' \<longrightarrow>
               map_of kvs k = map_of (dict_set ''includedArchiveIdentifiers'' ids p) k)
         \<and> (py_get (JObj p) ''includedArchiveIdentifiers'' (JArr []) = Inr (JArr (map JStr A)) \<and>
            py_get (JObj s) ''includedArchiveIdentifiers'' (JArr []) = Inr (JArr (map JStr B))
            \<longrightarrow> ids = JArr (map JStr (A @ first_occurrences (filter (\<lambda>b. b \<notin> set A) B))))
         \<and> (map_of p ''includedArchiveIdentifiers'' = None \<and>
            map_of s ''includedArchiveIdentifiers'' = None \<longrightarrow> ids = JArr [])"
proof -
  from merge_index_frame [OF assms(5)] obtain kvs where
    ids: "merge_ids (JObj p) (JObj s) =
            Inr (JObj (dict_set ''includedArchiveIdentifiers'' ids p), ids)" and
    kvs: "merged = JObj kvs"
      "map fst kvs = map fst (dict_set ''includedArchiveIdentifiers'' ids p)"
      "\<forall>k. k \<noteq> ''interfaceLanguages'' \<longrightarrow>
          map_of kvs k = map_of (dict_set ''includedArchiveIdentifiers'' ids p) k"
    by blast
  have written: "files (fst (main loads dumps prog [a, d] w)) (d @ ''/index/index.json'')
          = Some (dumps (JObj kvs))"
    unfolding main_merged [OF read_json_Inr [where loads = loads, OF assms(1,2)]
                read_json_Inr [where loads = loads, OF assms(3,4)] assms(5)]
    by (simp add: kvs(1) split: sum.splits)
  have key: "map_of kvs ''includedArchiveIdentifiers'' = Some ids"
    using kvs(3) by (simp add: map_of_dict_set)
  have strings: "py_get (JObj p) ''includedArchiveIdentifiers'' (JArr []) = Inr (JArr (map JStr A)) \<and>
            py_get (JObj s) ''includedArchiveIdentifiers'' (JArr []) = Inr (JArr (map JStr B))
            \<longrightarrow> ids = JArr (map JStr (A @ first_occurrences (filter (\<lambda>b. b \<notin> set A) B)))"
  proof
    assume h: "py_get (JObj p) ''includedArchiveIdentifiers'' (JArr []) = Inr (JArr (map JStr A)) \<and>
            py_get (JObj s) ''includedArchiveIdentifiers'' (JArr []) = Inr (JArr (map JStr B))"
    then have 1: "py_get (JObj p) ''includedArchiveIdentifiers'' (JArr []) = Inr (JArr (map JStr A))"
      and 2: "py_get (JObj s) ''includedArchiveIdentifiers'' (JArr []) = Inr (JArr (map JStr B))"
      by simp_all
    from merge_ids_strings [OF 1 2] ids
    show "ids = JArr (map JStr (A @ first_occurrences (filter (\<lambda>b. b \<notin> set A) B)))"
      by simp
  qed
  have none: "map_of p ''includedArchiveIdentifiers'' = None \<and>
            map_of s ''includedArchiveIdentifiers'' = None \<longrightarrow> ids = JArr []"
    using merge_index_no_ids [OF assms(5)] by simp
  show ?thesis
    by (rule exI [of _ kvs]) (intro conjI kvs written key strings none)
qed

theorem written_index_has_identifiers_witness:
  "files (example_world ''primary'' ''secondary'') (''docs'' @ ''/index/index.json'') = Some ''primary''
   \<and> map_of [(''primary'', JObj [(''title'', JStr ''Lists''),
                                 (''includedArchiveIdentifiers'', JArr [JStr ''com.listkit.Lists''])]),
              (''secondary'', example_secondary)] ''primary''
       = Some (JObj [(''title'', JStr ''Lists''),
                     (''includedArchiveIdentifiers'', JArr [JStr ''com.listkit.Lists''])])
   \<and> merge_index (JObj [(''title'', JStr ''Lists''),
                        (''includedArchiveIdentifiers'', JArr [JStr ''com.listkit.Lists''])])
                  example_secondary
       = Inr (JObj [(''title'', JStr ''Lists''),
                    (''includedArchiveIdentifiers'',
                     JArr [JStr ''com.listkit.Lists'', JStr ''com.listkit.ListKit''])],
              JArr [node ''Y'', node ''Z''],
              JArr [JStr ''com.listkit.Lists'', JStr ''com.listkit.ListKit''])
   \<and> files (fst (main (map_of [(''primary'', JObj [(''title'', JStr ''Lists''),
                                 (''includedArchiveIdentifiers'', JArr [JStr ''com.listkit.Lists''])]),
                              (''secondary'', example_secondary)])
                    (\<lambda>j. if j = JObj [(''title'', JStr ''Lists''),
                                       (''includedArchiveIdentifiers'',
                                        JArr [JStr ''com.listkit.Lists'', JStr ''com.listkit.ListKit''])]
                          then ''merged'' else ''other'')
                    ''merge-docs-index.py'' [''ListKit.doccarchive'', ''docs'']
                    (example_world ''primary'' ''secondary'')))
         (''docs'' @ ''/index/index.json'')
       = Some ''merged''
   \<and> JArr [JStr ''com.listkit.Lists'', JStr ''com.listkit.ListKit'']
       = JArr (map JStr ([''com.listkit.Lists''] @
                first_occurrences (filter (\<lambda>b. b \<notin> set [''com.listkit.Lists''])
                                          [''com.listkit.ListKit''])))
   \<and> merge_index (JObj []) (JObj []) =
         Inr (JObj [(''includedArchiveIdentifiers'', JArr [])], JArr [], JArr [])
   \<and> files (fst (main (map_of [(''{}'', JObj [])]) (\<lambda>j. ''merged'') ''merge-docs-index.py''
                    [''ListKit.doccarchive'', ''docs''] (example_world ''{}'' ''{}'')))
         (''docs'' @ ''/index/index.json'')
       = Some ((\<lambda>j. ''merged'') (JObj [(''includedArchiveIdentifiers'', JArr [])]))"
proof -
  let ?P = "JObj [(''title'', JStr ''Lists''),
                  (''includedArchiveIdentifiers'', JArr [JStr ''com.listkit.Lists''])]"
  let ?M = "JObj [(''title'', JStr ''Lists''),
                  (''includedArchiveIdentifiers'',
                   JArr [JStr ''com.listkit.Lists'', JStr ''com.listkit.ListKit''])]"
  let ?L = "map_of [(''primary'', ?P), (''secondary'', example_secondary)]"
  let ?D = "\<lambda>j. if j = ?M then ''merged'' else ''other''"
  have 1: "files (example_world ''primary'' ''secondary'') (''docs'' @ ''/index/index.json'')
             = Some ''primary''"
    by simp
  have 2: "?L ''primary'' = Some ?P"
    by simp
  have 3: "files (example_world ''primary'' ''secondary'')
             (''ListKit.doccarchive'' @ ''/index/index.json'') = Some ''secondary''"
    by simp
  have 4: "?L ''secondary'' = Some example_secondary"
    by simp
  have 5: "merge_index ?P example_secondary
       = Inr (?M, JArr [node ''Y'', node ''Z''],
              JArr [JStr ''com.listkit.Lists'', JStr ''com.listkit.ListKit''])"
    by (simp add: merge_index_def merge_ids_def merge_tree_def swift_items_def py_eq_JStr)
  have 6: "files (example_world ''{}'' ''{}'') (''docs'' @ ''/index/index.json'') = Some ''{}''"
    by simp
  have 7: "(map_of [(''{}'', JObj [])]) ''{}'' = Some (JObj [])"
    by simp
  have 8: "files (example_world ''{}'' ''{}'') (''ListKit.doccarchive'' @ ''/index/index.json'')
             = Some ''{}''"
    by simp
  have 9: "merge_index (JObj []) (JObj []) =
         Inr (JObj [(''includedArchiveIdentifiers'', JArr [])], JArr [], JArr [])"
    by (simp add: merge_index_def merge_ids_def merge_tree_def swift_items_def)
  show ?thesis
    using 1 2 5 9
      written_index_has_identifiers
        [where loads = ?L and dumps = ?D and prog = "''merge-docs-index.py''"
           and A = "[''com.listkit.Lists'']" and B = "[''com.listkit.ListKit'']",
         OF 1 2 3 4 5]
      written_index_has_identifiers
        [where loads = "map_of [(''{}'', JObj [])]" and dumps = "\<lambda>j. ''merged''"
           and prog = "''merge-docs-index.py''" and A = "[]" and B = "[]", OF 6 7 8 7 9]
    by simp
qed

text \<open>
  Claim C9 says that the count printed is the number of secondary top-level entries
  actually merged into the navigation tree. Line 53 prints the length of the
  secondary's sequence whether or not the guard of line 43 let the merge happen. Here
  the primary index has an empty sequence under \<^verbatim>\<open>"swift"\<close> and the secondary index
  has two top-level nodes: the run succeeds, the document written has the sequence
  still empty, and the line printed is \<^verbatim>\<open>Merged 2 ListKit entries into ...\<close>.
\<close>

theorem merged_count_without_merge:
  "stdout (fst (main (map_of [(''primary'', example_unmerged),
                (''secondary'', example_secondary)])
        dumps ''merge-docs-index.py'' [''ListKit.doccarchive'', ''docs'']
        (example_world ''primary'' ''secondary'')))
     = [Merged 2 ''docs/index/index.json'',
        ArchiveIdentifiers (JArr [JStr ''com.listkit.Lists'', JStr ''com.listkit.ListKit''])]
   \<and> snd (main (map_of [(''primary'', example_unmerged),
                (''secondary'', example_secondary)])
        dumps ''merge-docs-index.py'' [''ListKit.doccarchive'', ''docs'']
        (example_world ''primary'' ''secondary''))
     = Exit 0
   \<and> files (fst (main (map_of [(''primary'', example_unmerged),
                (''secondary'', example_secondary)])
        dumps ''merge-docs-index.py'' [''ListKit.doccarchive'', ''docs'']
        (example_world ''primary'' ''secondary'')))
       ''docs/index/index.json''
     = Some (dumps (JObj [(''includedArchiveIdentifiers'', JArr [JStr ''com.listkit.Lists'', JStr ''com.listkit.ListKit'']),
                     (''interfaceLanguages'', JObj [(''swift'', JArr [])])]))"
  by (simp add: main_def read_json_def write_json_def merge_index_def merge_ids_def
        merge_tree_def swift_items_def Let_def py_eq_JStr)

end
